theory Spec2Isabelle
  imports Main
begin

section \<open>The filter manager of \<open>pkg/filter/filter_manager.go\<close>\<close>

subsection \<open>Values of the program\<close>

text \<open>
  An \<open>error\<close> of the Go code. \<open>errors.New(msg)\<close> builds a new error from a message,
  \<open>errors.Wrap(err, msg)\<close> annotates an existing non-nil error. An error returned by the
  registry, a plugin or the configuration parser is some value of this type. A Go
  \<open>error\<close> variable is an \<open>error option\<close>, \<open>None\<close> being \<open>nil\<close>.
\<close>

datatype error = errors_New string | errors_Wrap error string

text \<open>
  \<open>model.Filter\<close>, the descriptor of one filter: its name and its raw options
  (\<open>map[string]interface{}\<close>, with \<open>'v\<close> for the opaque option values). \<open>Load\<close> receives
  a slice of pointers to descriptors, none of them nil; the model takes the descriptors
  pointed at.
\<close>

record 'v model_Filter =
  Name :: string
  Config :: "string \<rightharpoonup> 'v"

text \<open>
  A Go slice value: the backing array it points into, its length and its capacity. Backing
  arrays live in the store below and are named by their index there; every slice of this
  program starts at the first cell of its array. An element of type
  \<open>extension.HttpFilter\<close> is an \<open>'f option\<close>: \<open>None\<close> is the nil interface value,
  \<open>Some f\<close> a filter instance.
\<close>

record slice =
  Data :: nat
  Len :: nat
  Cap :: nat

text \<open>
  The struct \<open>filterManager\<close>. Its second field \<open>mu sync.RWMutex\<close> changes nothing in a
  sequential run (every \<open>Lock\<close> is followed by its deferred \<open>Unlock\<close>) and is left out.
\<close>

record filterManager =
  filters :: slice

text \<open>
  The memory of the program: the backing arrays of all \<open>[]extension.HttpFilter\<close> slices,
  and everything the imported packages own (the plugin registry, the filter instances,
  the log), as a value of type \<open>'w\<close> that only they read and write.
\<close>

record ('f, 'w) state =
  arrays :: "'f option list list"
  world :: 'w

text \<open>
  What the file imports and calls, taken as parameters: the packages
  \<open>pkg/common/extension\<close>, \<open>pkg/common/yaml\<close> and \<open>pkg/logger\<close> are other packages of the
  repository, and the plugins are supplied by whoever registers them.
  A Go function returning \<open>(value, error)\<close> that is tested with \<open>err != nil\<close> returns
  \<open>Inl err\<close> for a non-nil error and \<open>Inr value\<close> otherwise (a callee that reports no
  error returns a value that is not nil); one returning only \<open>error\<close> returns an
  \<open>error option\<close>. Each of them may change the world.
  \<open>growslice\<close> is the capacity the Go runtime picks when \<open>append\<close> has to reallocate
  (old capacity, needed length).
\<close>

record ('p, 'f, 'c, 'v, 'w) extension =
  GetHttpFilterPlugin :: "string \<Rightarrow> 'w \<Rightarrow> (error + 'p) \<times> 'w"
  CreateFilter :: "'p \<Rightarrow> 'w \<Rightarrow> (error + 'f) \<times> 'w"
  HttpFilter_Config :: "'f \<Rightarrow> 'w \<Rightarrow> 'c \<times> 'w"
  ParseConfig :: "'c \<Rightarrow> (string \<rightharpoonup> 'v) \<Rightarrow> 'w \<Rightarrow> error option \<times> 'w"
  HttpFilter_Apply :: "'f \<Rightarrow> 'w \<Rightarrow> error option \<times> 'w"
  Errorf :: "string \<Rightarrow> error list \<Rightarrow> 'w \<Rightarrow> 'w"
  growslice :: "nat \<Rightarrow> nat \<Rightarrow> nat"

subsection \<open>Slices\<close>

text \<open>
  \<open>make([]extension.HttpFilter, 0, n)\<close>: a new backing array of \<open>n\<close> nil cells, and a
  slice of length 0 and capacity \<open>n\<close> on it.
\<close>

definition makeslice0 :: "nat \<Rightarrow> ('f, 'w) state \<Rightarrow> slice \<times> ('f, 'w) state" where
  "makeslice0 n s =
     (\<lparr>Data = length (arrays s), Len = 0, Cap = n\<rparr>,
      s\<lparr>arrays := arrays s @ [replicate n None]\<rparr>)"

text \<open>
  \<open>append(sl, x)\<close>: while there is room the element is written into the backing array
  of \<open>sl\<close>, in place, and the slice grows by one; otherwise the elements move to a new,
  larger array.
\<close>

definition append_slice ::
  "('p, 'f, 'c, 'v, 'w) extension \<Rightarrow> slice \<Rightarrow> 'f option \<Rightarrow> ('f, 'w) state
     \<Rightarrow> slice \<times> ('f, 'w) state" where
  "append_slice ext sl x s =
     (if Len sl < Cap sl then
        (sl\<lparr>Len := Len sl + 1\<rparr>,
         s\<lparr>arrays := (arrays s)[Data sl := (arrays s ! Data sl)[Len sl := x]]\<rparr>)
      else
        (let newcap = growslice ext (Cap sl) (Len sl + 1) in
         (\<lparr>Data = length (arrays s), Len = Len sl + 1, Cap = newcap\<rparr>,
          s\<lparr>arrays := arrays s @
               [take (Len sl) (arrays s ! Data sl) @ [x] @ replicate (newcap - (Len sl + 1)) None]\<rparr>)))"

text \<open>The sequence a slice denotes in a store: the first \<open>Len\<close> cells of its array.\<close>

definition elems :: "('f, 'w) state \<Rightarrow> slice \<Rightarrow> 'f option list" where
  "elems s sl = take (Len sl) (arrays s ! Data sl)"

subsection \<open>The manager\<close>

text \<open>\<open>NewFilterManager\<close>: a manager whose chain is \<open>make([]extension.HttpFilter, 0, 16)\<close>.\<close>

definition NewFilterManager :: "('f, 'w) state \<Rightarrow> filterManager \<times> ('f, 'w) state" where
  "NewFilterManager s = (case makeslice0 16 s of (sl, s') \<Rightarrow> (\<lparr>filters = sl\<rparr>, s'))"

text \<open>\<open>GetFilters\<close> returns the slice held by the manager (the slice value, not a copy of its cells).\<close>

definition GetFilters :: "filterManager \<Rightarrow> slice" where
  "GetFilters fm = filters fm"

text \<open>
  \<open>Apply\<close> returns the pair \<open>(extension.HttpFilter, error)\<close> of the Go function, and the
  state it leaves. The receiver \<open>fm\<close> is not used by the body.
\<close>

definition Apply ::
  "('p, 'f, 'c, 'v, 'w) extension \<Rightarrow> filterManager \<Rightarrow> string \<Rightarrow> (string \<rightharpoonup> 'v)
     \<Rightarrow> ('f, 'w) state \<Rightarrow> ('f option \<times> error option) \<times> ('f, 'w) state" where
  "Apply ext fm name conf s =
     (case GetHttpFilterPlugin ext name (world s) of
        (Inl err, w1) \<Rightarrow> ((None, Some (errors_New ''filter not found'')), s\<lparr>world := w1\<rparr>)
      | (Inr plugin, w1) \<Rightarrow>
          (case CreateFilter ext plugin w1 of
             (Inl err, w2) \<Rightarrow>
               ((None, Some (errors_New ''plugin create filter error'')), s\<lparr>world := w2\<rparr>)
           | (Inr filter', w2) \<Rightarrow>
               (case HttpFilter_Config ext filter' w2 of
                  (factoryConf, w3) \<Rightarrow>
                    (case ParseConfig ext factoryConf conf w3 of
                       (Some err, w4) \<Rightarrow>
                         ((None, Some (errors_Wrap err ''config error'')), s\<lparr>world := w4\<rparr>)
                     | (None, w4) \<Rightarrow>
                         (case HttpFilter_Apply ext filter' w4 of
                            (Some err, w5) \<Rightarrow>
                              ((None, Some (errors_Wrap err ''create fail'')), s\<lparr>world := w5\<rparr>)
                          | (None, w5) \<Rightarrow> ((Some filter', None), s\<lparr>world := w5\<rparr>))))))"

text \<open>
  The body of the \<open>for\<close> loop of \<open>Load\<close> over the remaining descriptors, with the slice
  \<open>tmp\<close> built so far: call \<open>Apply\<close>, log the error if there is one, append the first
  component of the result to \<open>tmp\<close>.
\<close>

fun Load_loop ::
  "('p, 'f, 'c, 'v, 'w) extension \<Rightarrow> filterManager \<Rightarrow> 'v model_Filter list \<Rightarrow> slice
     \<Rightarrow> ('f, 'w) state \<Rightarrow> slice \<times> ('f, 'w) state" where
  "Load_loop ext fm [] tmp s = (tmp, s)"
| "Load_loop ext fm (f # fs) tmp s =
     (case Apply ext fm (Name f) (Config f) s of
        ((apply, err), s1) \<Rightarrow>
          (let s2 = (case err of
                       Some e \<Rightarrow> s1\<lparr>world := Errorf ext ''apply [%s] init fail, %s'' [e] (world s1)\<rparr>
                     | None \<Rightarrow> s1)
           in case append_slice ext tmp apply s2 of
                (tmp', s3) \<Rightarrow> Load_loop ext fm fs tmp' s3))"

text \<open>\<open>Load\<close>: make \<open>tmp\<close>, run the loop, store \<open>tmp\<close> in the manager.\<close>

definition Load ::
  "('p, 'f, 'c, 'v, 'w) extension \<Rightarrow> filterManager \<Rightarrow> 'v model_Filter list
     \<Rightarrow> ('f, 'w) state \<Rightarrow> filterManager \<times> ('f, 'w) state" where
  "Load ext fm fls s =
     (case makeslice0 (length fls) s of
        (tmp, s0) \<Rightarrow>
          (case Load_loop ext fm fls tmp s0 of
             (tmp', s1) \<Rightarrow> (fm\<lparr>filters := tmp'\<rparr>, s1)))"

subsection \<open>Notions used to state the properties\<close>

text \<open>
  The results of calling \<open>Apply\<close> for every descriptor in order, as \<open>Load\<close> does: each call
  runs in the state left by the calls (and the logging) before it.
\<close>

fun apply_each ::
  "('p, 'f, 'c, 'v, 'w) extension \<Rightarrow> filterManager \<Rightarrow> 'v model_Filter list
     \<Rightarrow> ('f, 'w) state \<Rightarrow> ('f option \<times> error option) list" where
  "apply_each ext fm [] s = []"
| "apply_each ext fm (f # fs) s =
     (case Apply ext fm (Name f) (Config f) s of
        ((apply, err), s1) \<Rightarrow>
          (apply, err) #
          apply_each ext fm fs
            (case err of
               Some e \<Rightarrow> s1\<lparr>world := Errorf ext ''apply [%s] init fail, %s'' [e] (world s1)\<rparr>
             | None \<Rightarrow> s1))"

text \<open>The filter instances of a sequence of \<open>extension.HttpFilter\<close> values: its non-nil entries, in order.\<close>

fun non_nil :: "'f option list \<Rightarrow> 'f list" where
  "non_nil [] = []"
| "non_nil (None # xs) = non_nil xs"
| "non_nil (Some f # xs) = f # non_nil xs"

text \<open>The instances returned by the calls of \<open>Apply\<close> that succeeded (\<open>err == nil\<close>), in order.\<close>

definition succeeded :: "('f option \<times> error option) list \<Rightarrow> 'f list" where
  "succeeded rs = non_nil (map fst (filter (\<lambda>r. snd r = None) rs))"

text \<open>A sequence of reloads of one manager, each \<open>Load\<close> starting where the one before ended.\<close>

fun Loads ::
  "('p, 'f, 'c, 'v, 'w) extension \<Rightarrow> filterManager \<Rightarrow> 'v model_Filter list list
     \<Rightarrow> ('f, 'w) state \<Rightarrow> filterManager \<times> ('f, 'w) state" where
  "Loads ext fm [] s = (fm, s)"
| "Loads ext fm (fls # rest) s =
     (case Load ext fm fls s of (fm', s') \<Rightarrow> Loads ext fm' rest s')"

subsection \<open>A registry with three plugins, to run the definitions\<close>

text \<open>
  Option values are integers or strings. A plugin says whether its factory works, which
  option its configuration structure binds (an integer field), and whether its
  initialisation works. A filter instance is a cell of the instance heap, named by its
  index; its configuration object is named by the same index.
\<close>

datatype demo_value = IntV int | StrV string

record demo_plugin =
  creates :: bool
  option_key :: string
  inits :: bool

record demo_instance =
  origin :: demo_plugin
  bound :: int
  ready :: bool

record demo_world =
  registry :: "(string \<times> demo_plugin) list"
  instances :: "demo_instance list"
  logged :: "error list"

definition demo_GetHttpFilterPlugin :: "string \<Rightarrow> demo_world \<Rightarrow> (error + demo_plugin) \<times> demo_world" where
  "demo_GetHttpFilterPlugin name w =
     (case map_of (registry w) name of
        None \<Rightarrow> (Inl (errors_New ''plugin not found''), w)
      | Some p \<Rightarrow> (Inr p, w))"

definition demo_CreateFilter :: "demo_plugin \<Rightarrow> demo_world \<Rightarrow> (error + nat) \<times> demo_world" where
  "demo_CreateFilter p w =
     (if creates p then
        (Inr (length (instances w)),
         w\<lparr>instances := instances w @ [\<lparr>origin = p, bound = 0, ready = False\<rparr>]\<rparr>)
      else (Inl (errors_New ''factory failed''), w))"

definition demo_Config :: "nat \<Rightarrow> demo_world \<Rightarrow> nat \<times> demo_world" where
  "demo_Config f w = (f, w)"

definition demo_ParseConfig ::
  "nat \<Rightarrow> (string \<rightharpoonup> demo_value) \<Rightarrow> demo_world \<Rightarrow> error option \<times> demo_world" where
  "demo_ParseConfig c conf w =
     (case conf (option_key (origin (instances w ! c))) of
        None \<Rightarrow> (None, w)
      | Some (IntV n) \<Rightarrow>
          (None, w\<lparr>instances := (instances w)[c := (instances w ! c)\<lparr>bound := n\<rparr>]\<rparr>)
      | Some (StrV x) \<Rightarrow> (Some (errors_New ''cannot bind a string to an integer field''), w))"

definition demo_Apply :: "nat \<Rightarrow> demo_world \<Rightarrow> error option \<times> demo_world" where
  "demo_Apply f w =
     (if inits (origin (instances w ! f)) then
        (None, w\<lparr>instances := (instances w)[f := (instances w ! f)\<lparr>ready := True\<rparr>]\<rparr>)
      else (Some (errors_New ''initialisation failed''), w))"

definition demo_Errorf :: "string \<Rightarrow> error list \<Rightarrow> demo_world \<Rightarrow> demo_world" where
  "demo_Errorf fmt args w = w\<lparr>logged := logged w @ args\<rparr>"

definition demo_extension :: "(demo_plugin, nat, nat, demo_value, demo_world) extension" where
  "demo_extension =
     \<lparr>GetHttpFilterPlugin = demo_GetHttpFilterPlugin,
      CreateFilter = demo_CreateFilter,
      HttpFilter_Config = demo_Config,
      ParseConfig = demo_ParseConfig,
      HttpFilter_Apply = demo_Apply,
      Errorf = demo_Errorf,
      growslice = (\<lambda>old need. 2 * need)\<rparr>"

text \<open>
  The registry: \<open>auth\<close> works, the factory of \<open>cors\<close> fails, the initialisation of
  \<open>gzip\<close> fails. The starting state holds one instance built earlier and no array.
\<close>

definition demo_auth :: demo_plugin where
  "demo_auth = \<lparr>creates = True, option_key = ''level'', inits = True\<rparr>"

definition demo_cors :: demo_plugin where
  "demo_cors = \<lparr>creates = False, option_key = ''origin'', inits = True\<rparr>"

definition demo_gzip :: demo_plugin where
  "demo_gzip = \<lparr>creates = True, option_key = ''level'', inits = False\<rparr>"

definition demo_world0 :: demo_world where
  "demo_world0 =
     \<lparr>registry = [(''auth'', demo_auth), (''cors'', demo_cors), (''gzip'', demo_gzip)],
      instances = [\<lparr>origin = demo_auth, bound = 7, ready = True\<rparr>],
      logged = []\<rparr>"

definition demo_state0 :: "(nat, demo_world) state" where
  "demo_state0 = \<lparr>arrays = [], world = demo_world0\<rparr>"

definition demo_fm0 :: filterManager where
  "demo_fm0 = fst (NewFilterManager demo_state0)"

definition demo_state1 :: "(nat, demo_world) state" where
  "demo_state1 = snd (NewFilterManager demo_state0)"

text \<open>The world after the factory of \<open>p\<close> has built an instance in \<open>demo_world0\<close>, and after
  that instance of \<open>auth\<close> has been initialised.\<close>

definition demo_created :: "demo_plugin \<Rightarrow> demo_world" where
  "demo_created p =
     demo_world0\<lparr>instances := instances demo_world0 @ [\<lparr>origin = p, bound = 0, ready = False\<rparr>]\<rparr>"

definition demo_ready :: demo_world where
  "demo_ready =
     demo_world0\<lparr>instances := instances demo_world0 @ [\<lparr>origin = demo_auth, bound = 0, ready = True\<rparr>]\<rparr>"

definition descriptor :: "string \<Rightarrow> (string \<rightharpoonup> 'v) \<Rightarrow> 'v model_Filter" where
  "descriptor name conf = \<lparr>Name = name, Config = conf\<rparr>"

text \<open>A descriptor list in which the first and the third descriptor fail.\<close>

definition demo_mixed :: "demo_value model_Filter list" where
  "demo_mixed =
     [descriptor ''nope'' Map.empty, descriptor ''auth'' Map.empty,
      descriptor ''gzip'' Map.empty, descriptor ''auth'' Map.empty]"

text \<open>The manager and the state after a first \<open>Load\<close> of the single descriptor \<open>auth\<close>.\<close>

definition demo_fm1 :: filterManager where
  "demo_fm1 = fst (Load demo_extension demo_fm0 [descriptor ''auth'' Map.empty] demo_state1)"

definition demo_state2 :: "(nat, demo_world) state" where
  "demo_state2 = snd (Load demo_extension demo_fm0 [descriptor ''auth'' Map.empty] demo_state1)"

section \<open>Auxiliary facts\<close>

lemma Apply_arrays: "arrays (snd (Apply ext fm name conf s)) = arrays s"
  by (simp add: Apply_def split: prod.splits sum.splits option.splits)

lemma Apply_world_only:
  assumes "world s = world t"
  shows "fst (Apply ext fm name conf s) = fst (Apply ext fm name conf t)
       \<and> world (snd (Apply ext fm name conf s)) = world (snd (Apply ext fm name conf t))"
  using assms by (simp add: Apply_def split: prod.splits sum.splits option.splits)

lemma apply_each_world_only:
  "world s = world t \<Longrightarrow> apply_each ext fm fls s = apply_each ext fm fls t"
proof (induction fls arbitrary: s t)
  case Nil
  then show ?case by simp
next
  case (Cons f fs)
  obtain a e s1 where A: "Apply ext fm (Name f) (Config f) s = ((a, e), s1)"
    by (metis prod.exhaust)
  obtain a' e' t1 where B: "Apply ext fm (Name f) (Config f) t = ((a', e'), t1)"
    by (metis prod.exhaust)
  from Apply_world_only[OF Cons.prems, of ext fm "Name f" "Config f"] A B
  have B': "Apply ext fm (Name f) (Config f) t = ((a, e), t1)" and W: "world s1 = world t1"
    by simp_all
  show ?case
  proof (cases e)
    case None
    with A B' Cons.IH[OF W] show ?thesis by simp
  next
    case (Some x)
    have "world (s1\<lparr>world := Errorf ext ''apply [%s] init fail, %s'' [x] (world s1)\<rparr>)
        = world (t1\<lparr>world := Errorf ext ''apply [%s] init fail, %s'' [x] (world t1)\<rparr>)"
      using W by simp
    from Cons.IH[OF this] A B' Some show ?thesis by simp
  qed
qed

lemma take_Suc_update: "n < length xs \<Longrightarrow> take (Suc n) (xs[n := a]) = take n xs @ [a]"
  by (simp add: take_Suc_conv_app_nth)

lemma Load_loop_inv:
  assumes "Data tmp < length (arrays s)"
    and "length (arrays s ! Data tmp) = Cap tmp"
    and "Len tmp + length fls \<le> Cap tmp"
  shows "Load_loop ext fm fls tmp s =
           (tmp\<lparr>Len := Len tmp + length fls\<rparr>, snd (Load_loop ext fm fls tmp s))
       \<and> arrays (snd (Load_loop ext fm fls tmp s)) =
           (arrays s)[Data tmp :=
              take (Len tmp) (arrays s ! Data tmp) @ map fst (apply_each ext fm fls s)
                @ drop (Len tmp + length fls) (arrays s ! Data tmp)]"
  using assms
proof (induction fls arbitrary: tmp s)
  case Nil
  then show ?case by (simp add: list_update_same_conv)
next
  case (Cons f fs)
  obtain a e s1 where A: "Apply ext fm (Name f) (Config f) s = ((a, e), s1)"
    by (metis prod.exhaust)
  define s2 where "s2 = (case e of
       Some x \<Rightarrow> s1\<lparr>world := Errorf ext ''apply [%s] init fail, %s'' [x] (world s1)\<rparr>
     | None \<Rightarrow> s1)"
  define arr where "arr = arrays s ! Data tmp"
  define tmp1 where "tmp1 = tmp\<lparr>Len := Len tmp + 1\<rparr>"
  define s3 where "s3 = s2\<lparr>arrays := (arrays s)[Data tmp := arr[Len tmp := a]]\<rparr>"
  have arr1: "arrays s1 = arrays s"
    using Apply_arrays[of ext fm "Name f" "Config f" s] A by simp
  have arr2: "arrays s2 = arrays s"
    using arr1 by (simp add: s2_def split: option.splits)
  have room: "Len tmp < Cap tmp" using Cons.prems by simp
  have app: "append_slice ext tmp a s2 = (tmp1, s3)"
    using room by (simp add: append_slice_def tmp1_def s3_def arr2 arr_def)
  have step: "Load_loop ext fm (f # fs) tmp s = Load_loop ext fm fs tmp1 s3"
    using A app by (simp add: s2_def)
  have w3: "world s3 = world s2" by (simp add: s3_def)
  have each: "apply_each ext fm (f # fs) s = (a, e) # apply_each ext fm fs s3"
    using A apply_each_world_only[OF w3, of ext fm fs] by (simp add: s2_def)
  have d: "Data tmp1 = Data tmp" "Cap tmp1 = Cap tmp" "Len tmp1 = Suc (Len tmp)"
    by (simp_all add: tmp1_def)
  have larr: "length arr = Cap tmp" using Cons.prems by (simp add: arr_def)
  have a3: "arrays s3 ! Data tmp = arr[Len tmp := a]"
    using Cons.prems by (simp add: s3_def)
  have p1: "Data tmp1 < length (arrays s3)" using Cons.prems by (simp add: d s3_def)
  have p2: "length (arrays s3 ! Data tmp1) = Cap tmp1" using larr by (simp add: d a3)
  have p3: "Len tmp1 + length fs \<le> Cap tmp1" using Cons.prems by (simp add: d)
  note IH = Cons.IH[OF p1 p2 p3]
  have t1: "take (Suc (Len tmp)) (arr[Len tmp := a]) = take (Len tmp) arr @ [a]"
    using room larr by (simp add: take_Suc_update)
  have t2: "drop (Suc (Len tmp) + length fs) (arr[Len tmp := a])
          = drop (Len tmp + length (f # fs)) arr"
    by simp
  have fstpart: "Load_loop ext fm (f # fs) tmp s =
           (tmp\<lparr>Len := Len tmp + length (f # fs)\<rparr>, snd (Load_loop ext fm (f # fs) tmp s))"
    using IH step by (simp add: tmp1_def)
  have "arrays (snd (Load_loop ext fm (f # fs) tmp s)) =
          (arrays s3)[Data tmp :=
              take (Suc (Len tmp)) (arr[Len tmp := a]) @ map fst (apply_each ext fm fs s3)
                @ drop (Suc (Len tmp) + length fs) (arr[Len tmp := a])]"
    using IH step by (simp add: d a3)
  also have "\<dots> = (arrays s)[Data tmp :=
              take (Len tmp) arr @ map fst (apply_each ext fm (f # fs) s)
                @ drop (Len tmp + length (f # fs)) arr]"
    unfolding t1 t2 each by (simp add: s3_def)
  finally show ?case using fstpart by (simp add: arr_def)
qed



lemma length_apply_each: "length (apply_each ext fm fls s) = length fls"
  by (induction fls arbitrary: s) (auto split: prod.splits)

lemma Load_published:
  "Load ext fm fls s =
     (fm\<lparr>filters := \<lparr>Data = length (arrays s), Len = length fls, Cap = length fls\<rparr>\<rparr>,
      snd (Load ext fm fls s))
   \<and> arrays (snd (Load ext fm fls s)) = arrays s @ [map fst (apply_each ext fm fls s)]"
proof -
  define tmp where "tmp = \<lparr>Data = length (arrays s), Len = 0, Cap = length fls\<rparr>"
  define s0 where "s0 = s\<lparr>arrays := arrays s @ [replicate (length fls) None]\<rparr>"
  have mk: "makeslice0 (length fls) s = (tmp, s0)"
    by (simp add: makeslice0_def tmp_def s0_def)
  have p1: "Data tmp < length (arrays s0)" by (simp add: tmp_def s0_def)
  have p2: "length (arrays s0 ! Data tmp) = Cap tmp" by (simp add: tmp_def s0_def)
  have p3: "Len tmp + length fls \<le> Cap tmp" by (simp add: tmp_def)
  note inv = Load_loop_inv[OF p1 p2 p3, of ext fm]
  have w0: "world s0 = world s" by (simp add: s0_def)
  have each: "apply_each ext fm fls s0 = apply_each ext fm fls s"
    by (rule apply_each_world_only[OF w0])
  have L: "Load ext fm fls s =
      (fm\<lparr>filters := fst (Load_loop ext fm fls tmp s0)\<rparr>, snd (Load_loop ext fm fls tmp s0))"
    by (simp add: Load_def mk split: prod.splits)
  have sel: "Len tmp = 0" "Cap tmp = length fls" by (simp_all add: tmp_def)
  have r: "arrays s0 ! Data tmp = replicate (length fls) None" by (simp add: tmp_def s0_def)
  have f: "fst (Load_loop ext fm fls tmp s0) = tmp\<lparr>Len := length fls\<rparr>"
    using inv by (metis fst_conv add_0 sel(1))
  have "arrays (snd (Load_loop ext fm fls tmp s0)) =
          (arrays s0)[Data tmp := map fst (apply_each ext fm fls s)]"
    using inv by (simp add: each sel r)
  then have a: "arrays (snd (Load_loop ext fm fls tmp s0))
                  = arrays s @ [map fst (apply_each ext fm fls s)]"
    by (simp add: tmp_def s0_def)
  show ?thesis using L f a by (simp add: tmp_def)
qed

lemma Load_GetFilters:
  "GetFilters (fst (Load ext fm fls s))
     = \<lparr>Data = length (arrays s), Len = length fls, Cap = length fls\<rparr>"
proof -
  have "fst (Load ext fm fls s)
          = fm\<lparr>filters := \<lparr>Data = length (arrays s), Len = length fls, Cap = length fls\<rparr>\<rparr>"
    using Load_published[of ext fm fls s] by (metis fst_conv)
  then show ?thesis by (simp add: GetFilters_def)
qed

lemma Load_elems:
  "elems (snd (Load ext fm fls s)) (GetFilters (fst (Load ext fm fls s)))
     = map fst (apply_each ext fm fls s)"
  using Load_published[of ext fm fls s]
  by (simp add: Load_GetFilters elems_def length_apply_each)

lemma Apply_nil_iff_error:
  "(fst (fst (Apply ext fm name conf s)) = None) = (snd (fst (Apply ext fm name conf s)) \<noteq> None)"
  by (simp add: Apply_def split: prod.splits sum.splits option.splits)

lemma apply_each_nil_iff_error:
  "r \<in> set (apply_each ext fm fls s) \<Longrightarrow> (fst r = None) = (snd r \<noteq> None)"
proof (induction fls arbitrary: s)
  case Nil
  then show ?case by simp
next
  case (Cons f fs)
  obtain a e s1 where A: "Apply ext fm (Name f) (Config f) s = ((a, e), s1)"
    by (metis prod.exhaust)
  have "(a = None) = (e \<noteq> None)"
    using Apply_nil_iff_error[of ext fm "Name f" "Config f" s] A by simp
  then show ?case using Cons A by auto
qed

lemma non_nil_map_fst_filter:
  "(\<And>r. r \<in> set rs \<Longrightarrow> (fst r = None) = (snd r \<noteq> None))
     \<Longrightarrow> non_nil (map fst rs) = succeeded rs"
proof (induction rs)
  case Nil
  then show ?case by (simp add: succeeded_def)
next
  case (Cons r rs)
  then have IH: "non_nil (map fst rs) = succeeded rs" by simp
  have h: "(fst r = None) = (snd r \<noteq> None)" using Cons.prems by simp
  show ?case
  proof (cases "fst r")
    case None
    then show ?thesis using h IH by (simp add: succeeded_def)
  next
    case (Some x)
    then show ?thesis using h IH by (simp add: succeeded_def)
  qed
qed

lemma Load_arrays:
  "arrays (snd (Load ext fm fls s)) = arrays s @ [map fst (apply_each ext fm fls s)]"
  using Load_published[of ext fm fls s] by simp

lemma Loads_prefix:
  "take (length (arrays s)) (arrays (snd (Loads ext fm lss s))) = arrays s"
proof (induction lss arbitrary: fm s)
  case Nil
  then show ?case by simp
next
  case (Cons fls rest)
  obtain fm' s' where L: "Load ext fm fls s = (fm', s')" by (metis prod.exhaust)
  have a: "arrays s' = arrays s @ [map fst (apply_each ext fm fls s)]"
    using Load_arrays[of ext fm fls s] L by simp
  have "take (length (arrays s')) (arrays (snd (Loads ext fm' rest s'))) = arrays s'"
    by (rule Cons.IH)
  then have "take (length (arrays s)) (take (length (arrays s')) (arrays (snd (Loads ext fm' rest s'))))
               = take (length (arrays s)) (arrays s')"
    by simp
  then have "take (length (arrays s)) (arrays (snd (Loads ext fm' rest s'))) = arrays s"
    by (simp add: a min_def)
  then show ?case using L by simp
qed

text \<open>Unfolding the registry of three plugins and its starting state.\<close>

lemmas demo_defs =
  demo_extension_def demo_GetHttpFilterPlugin_def demo_CreateFilter_def demo_Config_def
  demo_ParseConfig_def demo_Apply_def demo_Errorf_def demo_auth_def demo_cors_def
  demo_gzip_def demo_world0_def demo_state0_def demo_state1_def demo_fm0_def
  NewFilterManager_def makeslice0_def descriptor_def

lemma demo_apply_each_auth:
  "apply_each demo_extension demo_fm0 [descriptor ''auth'' Map.empty] demo_state1
     = [(Some 1, None)]"
  by (simp add: Apply_def demo_defs)

lemma demo_apply_each_nope:
  "apply_each demo_extension fm [descriptor ''nope'' Map.empty] demo_state1
     = [(None, Some (errors_New ''filter not found''))]"
  by (simp add: Apply_def demo_defs)

lemma demo_apply_each_mixed:
  "apply_each demo_extension demo_fm0 demo_mixed demo_state1
     = [(None, Some (errors_New ''filter not found'')),
        (Some 1, None),
        (None, Some (errors_Wrap (errors_New ''initialisation failed'') ''create fail'')),
        (Some 3, None)]"
  by (simp add: Apply_def demo_defs demo_mixed_def)

text \<open>
  Once the nil entries are taken out of the published chain, what is left are the
  instances of the calls that succeeded, in order.
\<close>

lemma Load_non_nil_entries:
  "non_nil (elems (snd (Load ext fm fls s)) (GetFilters (fst (Load ext fm fls s))))
     = succeeded (apply_each ext fm fls s)"
  unfolding Load_elems by (rule non_nil_map_fst_filter) (rule apply_each_nil_iff_error)

section \<open>Properties\<close>

text \<open>
  C1 (the chain that \<open>Load\<close> publishes holds no nil entry, even when \<open>Apply\<close> failed for
  some descriptor). The code does otherwise: on the registry above, \<open>Load\<close> of the single
  descriptor \<open>nope\<close>, a name that is not registered, publishes the one-element chain whose
  entry is nil.
\<close>

theorem Load_publishes_nil:
  "elems (snd (Load demo_extension demo_fm0 [descriptor ''nope'' Map.empty] demo_state1))
     (GetFilters (fst (Load demo_extension demo_fm0 [descriptor ''nope'' Map.empty] demo_state1)))
     = [None]"
  unfolding Load_elems demo_apply_each_nope by simp

text \<open>
  C3 (after \<open>Load\<close>, \<open>GetFilters\<close> returns the instances of the descriptors whose \<open>Apply\<close>
  succeeded, in descriptor order, and nothing else). The code does otherwise: on the
  registry above, \<open>Load\<close> of \<open>nope\<close>, \<open>auth\<close>, \<open>gzip\<close>, \<open>auth\<close>, where the lookup of the
  first and the initialisation of the third fail, publishes a chain of four entries, nil
  at the first and the third place, while the descriptors that succeeded give the two
  instances 1 and 3.
\<close>

theorem Load_chain_is_not_the_succeeded:
  "elems (snd (Load demo_extension demo_fm0 demo_mixed demo_state1))
     (GetFilters (fst (Load demo_extension demo_fm0 demo_mixed demo_state1)))
     = [None, Some 1, None, Some 3]
   \<and> map Some (succeeded (apply_each demo_extension demo_fm0 demo_mixed demo_state1))
     = [Some 1, Some 3]
   \<and> elems (snd (Load demo_extension demo_fm0 demo_mixed demo_state1))
     (GetFilters (fst (Load demo_extension demo_fm0 demo_mixed demo_state1)))
     \<noteq> map Some (succeeded (apply_each demo_extension demo_fm0 demo_mixed demo_state1))"
  unfolding Load_elems demo_apply_each_mixed by (simp add: succeeded_def)

text \<open>
  C4. \<open>Apply\<close> returns a filter instance exactly when the registry lookup, the factory, the
  binding of the options and the initialisation all succeed; otherwise it returns nil and
  the error of the first step that fails, in that order: \<open>filter not found\<close> for the
  lookup, \<open>plugin create filter error\<close> for the factory, the parser's error wrapped with
  \<open>config error\<close> for the binding, the filter's error wrapped with \<open>create fail\<close> for the
  initialisation. The state returned is the one the failing step left: no later step has
  run.
\<close>

theorem Apply_first_failure:
  "(\<forall>e w1. GetHttpFilterPlugin ext name (world s) = (Inl e, w1) \<longrightarrow>
       Apply ext fm name conf s
         = ((None, Some (errors_New ''filter not found'')), s\<lparr>world := w1\<rparr>))
   \<and> (\<forall>p w1 e w2.
         GetHttpFilterPlugin ext name (world s) = (Inr p, w1)
         \<and> CreateFilter ext p w1 = (Inl e, w2) \<longrightarrow>
       Apply ext fm name conf s
         = ((None, Some (errors_New ''plugin create filter error'')), s\<lparr>world := w2\<rparr>))
   \<and> (\<forall>p w1 f w2 c w3 e w4.
         GetHttpFilterPlugin ext name (world s) = (Inr p, w1)
         \<and> CreateFilter ext p w1 = (Inr f, w2)
         \<and> HttpFilter_Config ext f w2 = (c, w3)
         \<and> ParseConfig ext c conf w3 = (Some e, w4) \<longrightarrow>
       Apply ext fm name conf s
         = ((None, Some (errors_Wrap e ''config error'')), s\<lparr>world := w4\<rparr>))
   \<and> (\<forall>p w1 f w2 c w3 w4 e w5.
         GetHttpFilterPlugin ext name (world s) = (Inr p, w1)
         \<and> CreateFilter ext p w1 = (Inr f, w2)
         \<and> HttpFilter_Config ext f w2 = (c, w3)
         \<and> ParseConfig ext c conf w3 = (None, w4)
         \<and> HttpFilter_Apply ext f w4 = (Some e, w5) \<longrightarrow>
       Apply ext fm name conf s
         = ((None, Some (errors_Wrap e ''create fail'')), s\<lparr>world := w5\<rparr>))
   \<and> (\<forall>p w1 f w2 c w3 w4 w5.
         GetHttpFilterPlugin ext name (world s) = (Inr p, w1)
         \<and> CreateFilter ext p w1 = (Inr f, w2)
         \<and> HttpFilter_Config ext f w2 = (c, w3)
         \<and> ParseConfig ext c conf w3 = (None, w4)
         \<and> HttpFilter_Apply ext f w4 = (None, w5) \<longrightarrow>
       Apply ext fm name conf s = ((Some f, None), s\<lparr>world := w5\<rparr>))
   \<and> ((\<exists>f. fst (fst (Apply ext fm name conf s)) = Some f) =
        (\<exists>p w1 f w2 c w3 w4 w5.
           GetHttpFilterPlugin ext name (world s) = (Inr p, w1)
           \<and> CreateFilter ext p w1 = (Inr f, w2)
           \<and> HttpFilter_Config ext f w2 = (c, w3)
           \<and> ParseConfig ext c conf w3 = (None, w4)
           \<and> HttpFilter_Apply ext f w4 = (None, w5)))
   \<and> ((fst (fst (Apply ext fm name conf s)) = None)
        = (snd (fst (Apply ext fm name conf s)) \<noteq> None))"
proof (intro conjI)
  show "(\<exists>f. fst (fst (Apply ext fm name conf s)) = Some f) =
        (\<exists>p w1 f w2 c w3 w4 w5.
           GetHttpFilterPlugin ext name (world s) = (Inr p, w1)
           \<and> CreateFilter ext p w1 = (Inr f, w2)
           \<and> HttpFilter_Config ext f w2 = (c, w3)
           \<and> ParseConfig ext c conf w3 = (None, w4)
           \<and> HttpFilter_Apply ext f w4 = (None, w5))"
    by (auto simp: Apply_def split: prod.splits sum.splits option.splits)
  show "(fst (fst (Apply ext fm name conf s)) = None)
        = (snd (fst (Apply ext fm name conf s)) \<noteq> None)"
    by (rule Apply_nil_iff_error)
qed (simp_all add: Apply_def)

theorem Apply_first_failure_witness:
  "GetHttpFilterPlugin demo_extension ''nope'' demo_world0
       = (Inl (errors_New ''plugin not found''), demo_world0)
   \<and> Apply demo_extension demo_fm0 ''nope'' Map.empty demo_state1
       = ((None, Some (errors_New ''filter not found'')), demo_state1)
   \<and> CreateFilter demo_extension demo_cors demo_world0
       = (Inl (errors_New ''factory failed''), demo_world0)
   \<and> Apply demo_extension demo_fm0 ''cors'' Map.empty demo_state1
       = ((None, Some (errors_New ''plugin create filter error'')), demo_state1)
   \<and> ParseConfig demo_extension 1 [''level'' \<mapsto> StrV ''high''] (demo_created demo_auth)
       = (Some (errors_New ''cannot bind a string to an integer field''), demo_created demo_auth)
   \<and> Apply demo_extension demo_fm0 ''auth'' [''level'' \<mapsto> StrV ''high''] demo_state1
       = ((None, Some (errors_Wrap (errors_New ''cannot bind a string to an integer field'')
                         ''config error'')),
          demo_state1\<lparr>world := demo_created demo_auth\<rparr>)
   \<and> HttpFilter_Apply demo_extension 1 (demo_created demo_gzip)
       = (Some (errors_New ''initialisation failed''), demo_created demo_gzip)
   \<and> Apply demo_extension demo_fm0 ''gzip'' Map.empty demo_state1
       = ((None, Some (errors_Wrap (errors_New ''initialisation failed'') ''create fail'')),
          demo_state1\<lparr>world := demo_created demo_gzip\<rparr>)
   \<and> HttpFilter_Apply demo_extension 1 (demo_created demo_auth)
       = (None, demo_ready)
   \<and> Apply demo_extension demo_fm0 ''auth'' Map.empty demo_state1
       = ((Some 1, None), demo_state1\<lparr>world := demo_ready\<rparr>)"
proof -
  note T = Apply_first_failure[where ext = demo_extension and s = demo_state1 and fm = demo_fm0]
  have w: "world demo_state1 = demo_world0" by (simp add: demo_defs)
  have s: "demo_state1\<lparr>world := demo_world0\<rparr> = demo_state1" by (simp add: demo_defs)
  have g0: "GetHttpFilterPlugin demo_extension ''nope'' demo_world0
       = (Inl (errors_New ''plugin not found''), demo_world0)"
    by (simp add: demo_defs)
  have g1: "GetHttpFilterPlugin demo_extension ''cors'' demo_world0 = (Inr demo_cors, demo_world0)"
    by (simp add: demo_defs)
  have g2: "GetHttpFilterPlugin demo_extension ''auth'' demo_world0 = (Inr demo_auth, demo_world0)"
    by (simp add: demo_defs)
  have g3: "GetHttpFilterPlugin demo_extension ''gzip'' demo_world0 = (Inr demo_gzip, demo_world0)"
    by (simp add: demo_defs)
  have c1: "CreateFilter demo_extension demo_cors demo_world0
       = (Inl (errors_New ''factory failed''), demo_world0)"
    by (simp add: demo_defs)
  have c2: "CreateFilter demo_extension demo_auth demo_world0 = (Inr 1, demo_created demo_auth)"
    by (simp add: demo_defs demo_created_def)
  have c3: "CreateFilter demo_extension demo_gzip demo_world0 = (Inr 1, demo_created demo_gzip)"
    by (simp add: demo_defs demo_created_def)
  have f: "HttpFilter_Config demo_extension 1 w' = (1, w')" for w'
    by (simp add: demo_defs)
  have p2: "ParseConfig demo_extension 1 [''level'' \<mapsto> StrV ''high''] (demo_created demo_auth)
       = (Some (errors_New ''cannot bind a string to an integer field''), demo_created demo_auth)"
    by (simp add: demo_defs demo_created_def)
  have p3: "ParseConfig demo_extension 1 Map.empty (demo_created p) = (None, demo_created p)" for p
    by (simp add: demo_defs demo_created_def)
  have i3: "HttpFilter_Apply demo_extension 1 (demo_created demo_gzip)
       = (Some (errors_New ''initialisation failed''), demo_created demo_gzip)"
    by (simp add: demo_defs demo_created_def)
  have i2: "HttpFilter_Apply demo_extension 1 (demo_created demo_auth) = (None, demo_ready)"
    by (simp add: demo_defs demo_created_def demo_ready_def)
  have r0: "Apply demo_extension demo_fm0 ''nope'' Map.empty demo_state1
       = ((None, Some (errors_New ''filter not found'')), demo_state1)"
    using T[of "''nope''" Map.empty] g0 w s by simp
  have r1: "Apply demo_extension demo_fm0 ''cors'' Map.empty demo_state1
       = ((None, Some (errors_New ''plugin create filter error'')), demo_state1)"
    using T[of "''cors''" Map.empty] g1 c1 w s by simp
  have r2: "Apply demo_extension demo_fm0 ''auth'' [''level'' \<mapsto> StrV ''high''] demo_state1
       = ((None, Some (errors_Wrap (errors_New ''cannot bind a string to an integer field'')
                         ''config error'')),
          demo_state1\<lparr>world := demo_created demo_auth\<rparr>)"
    using T[of "''auth''" "[''level'' \<mapsto> StrV ''high'']"] g2 c2 f p2 w by simp
  have r3: "Apply demo_extension demo_fm0 ''gzip'' Map.empty demo_state1
       = ((None, Some (errors_Wrap (errors_New ''initialisation failed'') ''create fail'')),
          demo_state1\<lparr>world := demo_created demo_gzip\<rparr>)"
    using T[of "''gzip''" Map.empty] g3 c3 f p3 i3 w by simp
  have r4: "Apply demo_extension demo_fm0 ''auth'' Map.empty demo_state1
       = ((Some 1, None), demo_state1\<lparr>world := demo_ready\<rparr>)"
    using T[of "''auth''" Map.empty] g2 c2 f p3 i2 w by simp
  show ?thesis using g0 r0 c1 r1 p2 r2 i3 r3 i2 r4 by simp
qed

text \<open>
  C5. When the registry lookup of \<open>name\<close> fails (no plugin is registered under it),
  \<open>Apply\<close> returns nil and the error \<open>filter not found\<close>, whatever the options are, and
  nothing but the lookup has run.
\<close>

theorem Apply_unregistered:
  "GetHttpFilterPlugin ext name (world s) = (Inl e, w1) \<Longrightarrow>
     Apply ext fm name conf s = ((None, Some (errors_New ''filter not found'')), s\<lparr>world := w1\<rparr>)"
  by (simp add: Apply_def)

theorem Apply_unregistered_witness:
  "GetHttpFilterPlugin demo_extension ''nope'' (world demo_state1)
     = (Inl (errors_New ''plugin not found''), world demo_state1)
   \<and> Apply demo_extension demo_fm0 ''nope'' [''level'' \<mapsto> IntV 3] demo_state1
     = ((None, Some (errors_New ''filter not found'')), demo_state1)"
proof -
  have h: "GetHttpFilterPlugin demo_extension ''nope'' (world demo_state1)
     = (Inl (errors_New ''plugin not found''), world demo_state1)"
    by (simp add: demo_defs)
  from Apply_unregistered[OF h, of demo_fm0 "[''level'' \<mapsto> IntV 3]"] h
  show ?thesis by simp
qed

text \<open>
  C6. Every \<open>Load\<close> publishes a slice on a new backing array, one that is not in the store
  it started from; and any number of reloads leave every array of the store they started
  from as it was, so every slice that existed before them (a chain that \<open>GetFilters\<close>
  returned earlier) still denotes the same sequence.
\<close>

theorem Load_leaves_published_chains:
  "Data (GetFilters (fst (Load ext fm fls s))) = length (arrays s)
   \<and> take (length (arrays s)) (arrays (snd (Loads ext fm lss s))) = arrays s
   \<and> (Data sl < length (arrays s) \<longrightarrow> elems (snd (Loads ext fm lss s)) sl = elems s sl)"
proof (intro conjI impI)
  show "Data (GetFilters (fst (Load ext fm fls s))) = length (arrays s)"
    by (simp add: Load_GetFilters)
  show p: "take (length (arrays s)) (arrays (snd (Loads ext fm lss s))) = arrays s"
    by (rule Loads_prefix)
  assume "Data sl < length (arrays s)"
  then have "arrays (snd (Loads ext fm lss s)) ! Data sl = arrays s ! Data sl"
    using p by (metis nth_take)
  then show "elems (snd (Loads ext fm lss s)) sl = elems s sl"
    by (simp add: elems_def)
qed

theorem Load_leaves_published_chains_witness:
  "Data (GetFilters demo_fm1) < length (arrays demo_state2)
   \<and> elems demo_state2 (GetFilters demo_fm1) = [Some 1]
   \<and> elems (snd (Loads demo_extension demo_fm1
                   [[descriptor ''nope'' Map.empty], [], [descriptor ''gzip'' Map.empty]]
                   demo_state2))
        (GetFilters demo_fm1) = [Some 1]"
proof -
  have d: "Data (GetFilters demo_fm1) = length (arrays demo_state1)"
    by (simp add: demo_fm1_def Load_GetFilters)
  have l: "length (arrays demo_state2) = Suc (length (arrays demo_state1))"
    by (simp add: demo_state2_def Load_arrays)
  have h: "Data (GetFilters demo_fm1) < length (arrays demo_state2)"
    using d l by simp
  have e: "elems demo_state2 (GetFilters demo_fm1) = [Some 1]"
    unfolding demo_fm1_def demo_state2_def Load_elems demo_apply_each_auth by simp
  from Load_leaves_published_chains[of demo_extension demo_fm1 "[]" demo_state2
      "[[descriptor ''nope'' Map.empty], [], [descriptor ''gzip'' Map.empty]]" "GetFilters demo_fm1"]
    h e
  show ?thesis by simp
qed

text \<open>
  C7. \<open>Apply\<close> changes no backing array, hence not the chain of its manager (which it
  does not return changed either, the receiver being unused). For the world of
  the plugins: let \<open>P\<close> say of a world that the registry and the instances built before
  the call are as they were at the call, \<open>N\<close> of an instance that it was built during the
  call, \<open>NC\<close> of a configuration object that it belongs to such an instance. If the lookup
  and the factory keep \<open>P\<close>, an instance the factory returns is new, and configuring or
  initialising a new instance keeps \<open>P\<close>, then \<open>P\<close> holds after \<open>Apply\<close>, whether it
  succeeds or fails.
\<close>

theorem Apply_frame:
  assumes "P (world s)"
    and "\<And>w r w'. P w \<Longrightarrow> GetHttpFilterPlugin ext name w = (r, w') \<Longrightarrow> P w'"
    and "\<And>p w e w'. P w \<Longrightarrow> CreateFilter ext p w = (Inl e, w') \<Longrightarrow> P w'"
    and "\<And>p w f w'. P w \<Longrightarrow> CreateFilter ext p w = (Inr f, w') \<Longrightarrow> P w' \<and> N f"
    and "\<And>f w c w'. P w \<Longrightarrow> N f \<Longrightarrow> HttpFilter_Config ext f w = (c, w') \<Longrightarrow> P w' \<and> NC c"
    and "\<And>c w r w'. P w \<Longrightarrow> NC c \<Longrightarrow> ParseConfig ext c conf w = (r, w') \<Longrightarrow> P w'"
    and "\<And>f w r w'. P w \<Longrightarrow> N f \<Longrightarrow> HttpFilter_Apply ext f w = (r, w') \<Longrightarrow> P w'"
  shows "arrays (snd (Apply ext fm name conf s)) = arrays s
       \<and> elems (snd (Apply ext fm name conf s)) (GetFilters fm) = elems s (GetFilters fm)
       \<and> P (world (snd (Apply ext fm name conf s)))"
proof (intro conjI)
  show "arrays (snd (Apply ext fm name conf s)) = arrays s" by (rule Apply_arrays)
  show "elems (snd (Apply ext fm name conf s)) (GetFilters fm) = elems s (GetFilters fm)"
    by (simp add: elems_def Apply_arrays)
  obtain r1 w1 where g: "GetHttpFilterPlugin ext name (world s) = (r1, w1)"
    by (metis prod.exhaust)
  have P1: "P w1" using assms(1,2) g by blast
  show "P (world (snd (Apply ext fm name conf s)))"
  proof (cases r1)
    case (Inl e)
    then show ?thesis using g P1 by (simp add: Apply_def)
  next
    case (Inr p)
    obtain r2 w2 where c: "CreateFilter ext p w1 = (r2, w2)" by (metis prod.exhaust)
    show ?thesis
    proof (cases r2)
      case (Inl e)
      then have "P w2" using assms(3) P1 c by blast
      then show ?thesis using g Inr c Inl by (simp add: Apply_def)
    next
      case r2: (Inr f)
      then have P2: "P w2" and Nf: "N f" using assms(4) P1 c by blast+
      obtain cf w3 where k: "HttpFilter_Config ext f w2 = (cf, w3)" by (metis prod.exhaust)
      have P3: "P w3" and NCc: "NC cf" using assms(5) P2 Nf k by blast+
      obtain r4 w4 where b: "ParseConfig ext cf conf w3 = (r4, w4)" by (metis prod.exhaust)
      have P4: "P w4" using assms(6) P3 NCc b by blast
      obtain r5 w5 where i: "HttpFilter_Apply ext f w4 = (r5, w5)" by (metis prod.exhaust)
      have P5: "P w5" using assms(7) P4 Nf i by blast
      show ?thesis
        using g Inr c r2 k b i P4 P5
        by (cases r4; cases r5) (simp_all add: Apply_def)
    qed
  qed
qed

theorem Apply_frame_witness:
  "fst (Apply demo_extension demo_fm0 ''auth'' [''level'' \<mapsto> IntV 3] demo_state1) = (Some 1, None)
   \<and> arrays (snd (Apply demo_extension demo_fm0 ''auth'' [''level'' \<mapsto> IntV 3] demo_state1))
       = arrays demo_state1
   \<and> elems (snd (Apply demo_extension demo_fm0 ''auth'' [''level'' \<mapsto> IntV 3] demo_state1))
        (GetFilters demo_fm0) = elems demo_state1 (GetFilters demo_fm0)
   \<and> registry (world (snd (Apply demo_extension demo_fm0 ''auth'' [''level'' \<mapsto> IntV 3] demo_state1)))
       = registry demo_world0
   \<and> take 1 (instances (world (snd (Apply demo_extension demo_fm0 ''auth'' [''level'' \<mapsto> IntV 3]
                                        demo_state1))))
       = instances demo_world0"
proof -
  define P where "P = (\<lambda>w::demo_world. registry w = registry demo_world0
                          \<and> take 1 (instances w) = instances demo_world0)"
  define N where "N = (\<lambda>f::nat. 1 \<le> f)"
  have h1: "P (world demo_state1)" by (simp add: P_def demo_defs)
  have h2: "P w \<Longrightarrow> GetHttpFilterPlugin demo_extension ''auth'' w = (r, w') \<Longrightarrow> P w'" for w r w'
    by (auto simp: P_def demo_extension_def demo_GetHttpFilterPlugin_def split: option.splits)
  have len: "P w \<Longrightarrow> 1 \<le> length (instances w)" for w
    by (cases "instances w") (auto simp: P_def demo_world0_def)
  have h3: "P w \<Longrightarrow> CreateFilter demo_extension p w = (Inl e, w') \<Longrightarrow> P w'" for p w e w'
    by (auto simp: P_def demo_extension_def demo_CreateFilter_def split: if_splits)
  have h4: "P w \<Longrightarrow> CreateFilter demo_extension p w = (Inr f, w') \<Longrightarrow> P w' \<and> N f" for p w f w'
    using len[of w]
    by (auto simp: P_def N_def demo_extension_def demo_CreateFilter_def split: if_splits)
  have h5: "P w \<Longrightarrow> N f \<Longrightarrow> HttpFilter_Config demo_extension f w = (c, w') \<Longrightarrow> P w' \<and> N c"
    for f w c w'
    by (auto simp: demo_extension_def demo_Config_def)
  have h6: "P w \<Longrightarrow> N c \<Longrightarrow> ParseConfig demo_extension c [''level'' \<mapsto> IntV 3] w = (r, w') \<Longrightarrow> P w'"
    for c w r w'
    by (auto simp: P_def N_def demo_extension_def demo_ParseConfig_def
             split: option.splits demo_value.splits if_splits)
  have h7: "P w \<Longrightarrow> N f \<Longrightarrow> HttpFilter_Apply demo_extension f w = (r, w') \<Longrightarrow> P w'" for f w r w'
    by (auto simp: P_def N_def demo_extension_def demo_Apply_def split: if_splits)
  have r: "fst (Apply demo_extension demo_fm0 ''auth'' [''level'' \<mapsto> IntV 3] demo_state1)
             = (Some 1, None)"
    by (simp add: Apply_def demo_defs)
  from Apply_frame[of P demo_state1 demo_extension "''auth''" N N "[''level'' \<mapsto> IntV 3]" demo_fm0,
      OF h1 h2 h3 h4 h5 h6 h7]
  show ?thesis using r by (simp add: P_def)
qed

text \<open>
  C8. \<open>Load\<close> on the empty descriptor list returns, having changed nothing but the store of
  arrays (one new, empty array), and \<open>GetFilters\<close> afterwards returns the empty sequence.
\<close>

theorem Load_empty:
  "Load ext fm [] s =
     (fm\<lparr>filters := \<lparr>Data = length (arrays s), Len = 0, Cap = 0\<rparr>\<rparr>, s\<lparr>arrays := arrays s @ [[]]\<rparr>)
   \<and> elems (snd (Load ext fm [] s)) (GetFilters (fst (Load ext fm [] s))) = []"
  by (simp add: Load_def makeslice0_def elems_def GetFilters_def)

text \<open>
  C9. The chain of a manager returned by \<open>NewFilterManager\<close> is empty: \<open>GetFilters\<close>
  returns a slice of length 0, denoting the empty sequence.
\<close>

theorem NewFilterManager_empty:
  "elems (snd (NewFilterManager s)) (GetFilters (fst (NewFilterManager s))) = []
   \<and> Len (GetFilters (fst (NewFilterManager s))) = 0"
  by (simp add: NewFilterManager_def makeslice0_def elems_def GetFilters_def)

text \<open>
  C10. The chain that \<open>Load\<close> publishes for a list of \<open>n\<close> descriptors has length exactly
  \<open>n\<close>: its entries are the first components of the results of \<open>Apply\<close>, one per
  descriptor, the nil of a failed \<open>Apply\<close> included.
\<close>

theorem Load_length:
  "Len (GetFilters (fst (Load ext fm fls s))) = length fls
   \<and> length (elems (snd (Load ext fm fls s)) (GetFilters (fst (Load ext fm fls s)))) = length fls
   \<and> elems (snd (Load ext fm fls s)) (GetFilters (fst (Load ext fm fls s)))
        = map fst (apply_each ext fm fls s)"
proof -
  have "Len (GetFilters (fst (Load ext fm fls s))) = length fls"
    by (simp add: Load_GetFilters)
  then show ?thesis
    unfolding Load_elems by (simp add: length_apply_each)
qed

end
